theory Spec2Isabelle
  imports Main "HOL-Library.Sublist"
begin

section \<open>Strings\<close>

text \<open>
  A Python \<open>str\<close> is a sequence of Unicode code points, so a string is a list of code
  points (natural numbers); \<open>str ''abc''\<close> writes an ASCII literal.
\<close>

type_synonym pystr = "nat list"

abbreviation str :: "string \<Rightarrow> pystr" where
  "str s \<equiv> map of_char s"

text \<open>
  The characters that \<open>\s\<close> matches in a \<open>str\<close> pattern (the ones \<open>str.isspace\<close> accepts):
  U+0009..U+000D, U+001C..U+0020, U+0085, U+00A0, U+1680, U+2000..U+200A, U+2028, U+2029,
  U+202F, U+205F, U+3000.
\<close>

definition isspace :: "nat \<Rightarrow> bool" where
  "isspace c = (c \<in> set ([9, 10, 11, 12, 13, 28, 29, 30, 31, 32, 133, 160, 5760]
       @ [8192..<8203] @ [8232, 8233, 8239, 8287, 12288]))"

text \<open>\<open>s.split(sep)\<close> for a separator of one character: never an empty list.\<close>

fun split :: "pystr \<Rightarrow> nat \<Rightarrow> pystr list" where
  "split [] sep = [[]]"
| "split (c # cs) sep =
     (if c = sep then [] # split cs sep
      else (case split cs sep of [] \<Rightarrow> [[c]] | w # ws \<Rightarrow> (c # w) # ws))"

definition endswith :: "pystr \<Rightarrow> pystr \<Rightarrow> bool" where
  "endswith s suf = (length suf \<le> length s \<and> drop (length s - length suf) s = suf)"

text \<open>
  \<open>s.replace(old, new)\<close>: the occurrences of \<open>old\<close> are found from the left and do not
  overlap; an empty \<open>old\<close> puts \<open>new\<close> around every character.
\<close>

function replace :: "pystr \<Rightarrow> pystr \<Rightarrow> pystr \<Rightarrow> pystr" where
  "replace [] old new = (if old = [] then new else [])"
| "replace (c # cs) old new =
     (if old = [] then new @ c # replace cs old new
      else if prefix old (c # cs) then new @ replace (drop (length old) (c # cs)) old new
      else c # replace cs old new)"
  by pat_completeness auto
termination
  by (relation "measure (\<lambda>(s, old, new). length s)") auto

section \<open>The two fixed patterns\<close>

text \<open>
  A compiled pattern is only ever used as \<open>re.sub(pattern, "", s)\<close>, so it is represented
  by the function that deletes its matches.

  \<open>danger = re.compile(r"[\~\$\{\}\!\?\|\:\s]")\<close> is one character class: deleting its
  matches filters the string.
\<close>

type_synonym pattern = "pystr \<Rightarrow> pystr"

definition danger_class :: "nat \<Rightarrow> bool" where
  "danger_class c = (c \<in> set (str ''~${}!?|:'') \<or> isspace c)"

definition danger :: pattern where
  "danger s = filter (\<lambda>c. \<not> danger_class c) s"

text \<open>
  \<open>groupnames = re.compile(r"\_*\[\S+?\]\_*")\<close>. A match at the start of \<open>s\<close> takes every
  leading underscore (with fewer, the next character would be an underscore, not the
  bracket), the opening bracket, one character that is not white space, then as few
  further such characters as reach a closing bracket (\<open>lazy_nonspace\<close>), and every
  underscore that follows. \<open>groupnames_match\<close> returns what is left of \<open>s\<close> after the
  match. A match is never empty, so \<open>re.sub\<close> resumes right after it, and one character
  further where none starts.
\<close>

fun lazy_nonspace :: "pystr \<Rightarrow> pystr option" where
  "lazy_nonspace [] = None"
| "lazy_nonspace (c # cs) =
     (if c = 93 then Some cs else if isspace c then None else lazy_nonspace cs)"

definition groupnames_match :: "pystr \<Rightarrow> pystr option" where
  "groupnames_match s =
     (case dropWhile (\<lambda>c. c = 95) s of
        b # c # cs \<Rightarrow>
          (if b = 91 \<and> \<not> isspace c
           then map_option (dropWhile (\<lambda>c. c = 95)) (lazy_nonspace cs) else None)
      | _ \<Rightarrow> None)"

lemma lazy_nonspace_length: "lazy_nonspace s = Some r \<Longrightarrow> length r < length s"
  by (induction s) (auto split: if_splits)

lemma groupnames_match_length:
  assumes "groupnames_match s = Some r"
  shows "length r < length s"
proof -
  obtain b c cs t where d: "dropWhile (\<lambda>c. c = 95) s = b # c # cs"
    and t: "lazy_nonspace cs = Some t" and r: "r = dropWhile (\<lambda>c. c = 95) t"
    using assms
    by (auto simp: groupnames_match_def split: list.splits if_splits)
  have "length r \<le> length t"
    unfolding r by (rule length_dropWhile_le)
  moreover have "length t < length cs"
    using t by (rule lazy_nonspace_length)
  moreover have "length (b # c # cs) \<le> length s"
    unfolding d [symmetric] by (rule length_dropWhile_le)
  ultimately show ?thesis by simp
qed

function groupnames :: pattern where
  "groupnames [] = []"
| "groupnames (c # cs) =
     (case groupnames_match (c # cs) of
        Some rest \<Rightarrow> groupnames rest
      | None \<Rightarrow> c # groupnames cs)"
  by pat_completeness auto
termination
  by (relation "measure length") (auto dest: groupnames_match_length)

text \<open>\<open>re.search(groupnames, s) is not None\<close>: a match starts somewhere in \<open>s\<close>.\<close>

fun groupnames_search :: "pystr \<Rightarrow> bool" where
  "groupnames_search [] = False"
| "groupnames_search (c # cs) =
     (groupnames_match (c # cs) \<noteq> None \<or> groupnames_search cs)"

section \<open>Paths\<close>

text \<open>
  A \<open>pathlib\<close> path on a POSIX system: its root (\<open>""\<close>, \<open>"/"\<close> or \<open>"//"\<close>) and its
  components. \<open>Path\<close> parses a string: two leading slashes exactly are kept as the root,
  empty components and \<open>"."\<close> are dropped.
\<close>

record path =
  root :: pystr
  parts :: "pystr list"

definition splitroot :: "pystr \<Rightarrow> pystr \<times> pystr" where
  "splitroot p =
     (if take 1 p \<noteq> str ''/'' then ([], p)
      else if take 1 (drop 1 p) \<noteq> str ''/'' \<or> take 1 (drop 2 p) = str ''/''
      then (str ''/'', drop 1 p)
      else (str ''//'', drop 2 p))"

definition Path :: "pystr \<Rightarrow> path" where
  "Path s = (case splitroot s of (r, rel) \<Rightarrow>
     \<lparr>root = r, parts = filter (\<lambda>x. x \<noteq> [] \<and> x \<noteq> str ''.'') (split rel 47)\<rparr>)"

definition path_name :: "path \<Rightarrow> pystr" where
  "path_name p = (if parts p = [] then [] else last (parts p))"

definition path_parent :: "path \<Rightarrow> path" where
  "path_parent p = p\<lparr>parts := butlast (parts p)\<rparr>"

definition joinpath :: "path \<Rightarrow> pystr \<Rightarrow> path" where
  "joinpath p s =
     (let q = Path s in if root q \<noteq> [] then q else p\<lparr>parts := parts p @ parts q\<rparr>)"

fun join :: "pystr \<Rightarrow> pystr list \<Rightarrow> pystr" where
  "join sep [] = []"
| "join sep [x] = x"
| "join sep (x # y # ys) = x @ sep @ join sep (y # ys)"

definition str_of_path :: "path \<Rightarrow> pystr" where
  "str_of_path p =
     (if root p = [] \<and> parts p = [] then str ''.'' else root p @ join (str ''/'') (parts p))"

section \<open>The file system, exceptions and the host\<close>

text \<open>
  What a path names, as \<open>stat\<close> sees it: a link is recorded with the kind of its target,
  \<open>Other\<close> is anything else (a dangling link, a device, a socket). The file system is
  indexed by the spelling of a path; that two spellings may name one file is not tracked.
  \<open>stat_error\<close> is the exception that \<open>os.stat\<close> raises for a path, where it raises one
  (a directory on the way that may not be searched, a name that is too long),
  \<open>readonly\<close> holds of the directories in which no entry may be made or removed,
  \<open>realpath\<close> is what \<open>p.absolute().resolve()\<close> answers; the script asks it only for
  the directory of a path that \<open>stat\<close> has just reached, where it raises nothing.
\<close>

datatype node = File | Dir | LinkToFile | LinkToDir | Other

text \<open>
  The exceptions. An error of the operating system is an \<open>OSError\<close>, of which
  \<open>EnvironmentError\<close> is another name: the script raises one with a message, the system
  raises the subclasses below, and \<open>OSError n\<close> stands for an error number that has no
  class of its own (9 \<open>EBADF\<close>, 36 \<open>ENAMETOOLONG\<close>, 40 \<open>ELOOP\<close>).
\<close>

datatype exn =
    ValueError pystr
  | EnvironmentError pystr
  | OSError nat
  | FileNotFoundError
  | NotADirectoryError
  | FileExistsError
  | PermissionError
  | IsADirectoryError
  | NameError pystr
  | OverflowError pystr
  | re_error

record filesystem =
  nodes :: "path \<rightharpoonup> node"
  stat_error :: "path \<Rightarrow> exn option"
  readonly :: "path \<Rightarrow> bool"
  realpath :: "path \<Rightarrow> path"

text \<open>
  \<open>Path.is_file\<close> and \<open>Path.is_dir\<close> call \<open>stat\<close>. They answer \<open>False\<close> when it raises
  \<open>ValueError\<close> or an \<open>OSError\<close> whose number is \<open>ENOENT\<close>, \<open>ENOTDIR\<close>, \<open>EBADF\<close> or
  \<open>ELOOP\<close> (\<open>_ignore_error\<close>), and raise every other exception again.
\<close>

definition ignore_error :: "exn \<Rightarrow> bool" where
  "ignore_error e =
     (e = FileNotFoundError \<or> e = NotADirectoryError \<or> e = OSError 9 \<or> e = OSError 40)"

definition stat_is :: "filesystem \<Rightarrow> path \<Rightarrow> (node \<Rightarrow> bool) \<Rightarrow> exn + bool" where
  "stat_is fs p kind =
     (case stat_error fs p of
        None \<Rightarrow> Inr (case nodes fs p of None \<Rightarrow> False | Some n \<Rightarrow> kind n)
      | Some (ValueError m) \<Rightarrow> Inr False
      | Some e \<Rightarrow> if ignore_error e then Inr False else Inl e)"

definition is_file :: "filesystem \<Rightarrow> path \<Rightarrow> exn + bool" where
  "is_file fs p = stat_is fs p (\<lambda>n. n = File \<or> n = LinkToFile)"

definition is_dir :: "filesystem \<Rightarrow> path \<Rightarrow> exn + bool" where
  "is_dir fs p = stat_is fs p (\<lambda>n. n = Dir \<or> n = LinkToDir)"

text \<open>
  \<open>p.mkdir(exist_ok=True)\<close>: \<open>os.mkdir\<close> needs the directory that is to hold the entry,
  no entry of that name yet and leave to write there. Its \<open>FileNotFoundError\<close> is raised
  again; after any other \<open>OSError\<close> the call returns quietly when \<open>p.is_dir()\<close> holds,
  and raises the error again otherwise (\<open>exist_ok\<close>).
\<close>

definition exist_ok :: "filesystem \<Rightarrow> path \<Rightarrow> exn \<Rightarrow> exn + filesystem" where
  "exist_ok fs p e =
     (case is_dir fs p of Inl e' \<Rightarrow> Inl e' | Inr d \<Rightarrow> if d then Inr fs else Inl e)"

definition mkdir :: "filesystem \<Rightarrow> path \<Rightarrow> exn + filesystem" where
  "mkdir fs p =
     (if nodes fs (path_parent p) = None then Inl FileNotFoundError
      else if nodes fs (path_parent p) \<noteq> Some Dir \<and> nodes fs (path_parent p) \<noteq> Some LinkToDir
      then exist_ok fs p NotADirectoryError
      else if nodes fs p \<noteq> None then exist_ok fs p FileExistsError
      else if readonly fs (path_parent p) then exist_ok fs p PermissionError
      else Inr (fs\<lparr>nodes := (nodes fs)(p \<mapsto> Dir)\<rparr>))"

definition unlink :: "filesystem \<Rightarrow> path \<Rightarrow> exn + filesystem" where
  "unlink fs p =
     (case nodes fs p of
        None \<Rightarrow> Inl FileNotFoundError
      | Some Dir \<Rightarrow> Inl IsADirectoryError
      | Some _ \<Rightarrow>
          if readonly fs (path_parent p) then Inl PermissionError
          else Inr (fs\<lparr>nodes := (nodes fs)(p := None)\<rparr>))"

text \<open>A child process as \<open>subprocess.call\<close> starts it.\<close>

datatype stream = Inherit | DEVNULL

record invocation =
  args :: "pystr list"
  stdout :: stream
  stderr :: stream

text \<open>
  What the script asks of WeeChat and of the Python library, none of it code of the script:
  the plugin's options (\<open>weechat.config_get_plugin\<close>, the empty string for an option that
  is not set), \<open>weechat.config_string_to_boolean\<close>, \<open>shutil.which\<close>, \<open>re.compile\<close>
  (or the exception it raises: \<open>re.error\<close> for a pattern that is malformed,
  \<open>ValueError\<close> for flags that exclude each other, \<open>OverflowError\<close> for a repeat count that
  is too large) and \<open>subprocess.call\<close>, which either fails to start
  the child or gives its exit status and the file system the child leaves.
\<close>

record host =
  config_get_plugin :: "pystr \<Rightarrow> pystr"
  config_string_to_boolean :: "pystr \<Rightarrow> int"
  which :: "pystr \<Rightarrow> pystr option"
  re_compile :: "pystr \<Rightarrow> exn + pattern"
  call :: "invocation \<Rightarrow> filesystem \<Rightarrow> exn + int \<times> filesystem"

text \<open>The state the handler changes: the file system, the lines printed, the calls made.\<close>

record world =
  fs :: filesystem
  printed :: "pystr list"
  spawned :: "invocation list"

definition print :: "world \<Rightarrow> pystr \<Rightarrow> world" where
  "print w s = w\<lparr>printed := printed w @ [s]\<rparr>"

text \<open>The entry of the infolist that the signal carries.\<close>

record xfer =
  filename :: pystr
  local_filename :: pystr

section \<open>The script\<close>

definition weechat_config_get_boolean :: "host \<Rightarrow> pystr \<Rightarrow> int" where
  "weechat_config_get_boolean h config_key =
     config_string_to_boolean h (config_get_plugin h config_key)"

definition get_ffmpeg :: "host \<Rightarrow> exn + pystr" where
  "get_ffmpeg h =
     (let custom_ffmpeg_path = config_get_plugin h (str ''ffmpeg'');
          ffmpeg = (if length custom_ffmpeg_path > 0 then Some custom_ffmpeg_path
                    else which h (str ''ffmpeg''))
      in case ffmpeg of
           None \<Rightarrow> Inl (EnvironmentError (str
             ''Error: ffmpeg could not be found on the system! Please install ffmpeg or unload this plugin!''))
         | Some f \<Rightarrow> Inr f)"

definition get_outname :: "host \<Rightarrow> pystr \<Rightarrow> exn + pystr" where
  "get_outname h nm =
     (let chunks = tl (split nm 46);
          spliced_name = concat (butlast chunks) @ str ''.mp4'';
          replacements = config_get_plugin h (str ''pattern'')
      in case (if replacements \<noteq> [] then re_compile h replacements else Inr danger) of
           Inl e \<Rightarrow> Inl e
         | Inr r \<Rightarrow> Inr (replace (groupnames (r spliced_name)) (str ''_-_'') (str ''-'')))"

definition fetch_outfile :: "host \<Rightarrow> filesystem \<Rightarrow> path \<Rightarrow> (exn + path) \<times> filesystem" where
  "fetch_outfile h s infile =
     (case is_file s infile of
        Inl e \<Rightarrow> (Inl e, s)
      | Inr file \<Rightarrow>
          if \<not> file
          then (Inl (ValueError (str_of_path infile @ str '' is not a file or symlink!'')), s)
          else if \<not> endswith (path_name infile) (str ''.mkv'')
          then (Inl (ValueError (path_name infile @ str '' is not a matroska video file!'')), s)
          else
            let indir = realpath s (path_parent infile);
                outdir = joinpath (path_parent indir) (str ''processed'')
            in case mkdir s outdir of
                 Inl e \<Rightarrow> (Inl e, s)
               | Inr s' \<Rightarrow>
                   (case get_outname h (path_name infile) of
                      Inl e \<Rightarrow> (Inl e, s')
                    | Inr outfile \<Rightarrow> (Inr (joinpath outdir outfile), s')))"

definition ffmpeg_args :: "host \<Rightarrow> pystr \<Rightarrow> pystr \<Rightarrow> pystr \<Rightarrow> pystr list" where
  "ffmpeg_args h ffmpeg infile outfile =
     [ffmpeg, str ''-i'', infile, str ''-c'', str ''copy'', str ''-strict'', str ''-2'',
      str ''-c:s'', str ''mov_text'', outfile]
     @ (if weechat_config_get_boolean h (str ''overwrite'') \<noteq> 0 then [str ''-y''] else [])"

definition do_ffmpeg :: "host \<Rightarrow> world \<Rightarrow> pystr \<Rightarrow> pystr \<Rightarrow> pystr \<Rightarrow> (exn + int) \<times> world" where
  "do_ffmpeg h w ffmpeg infile outfile =
     (let c = \<lparr>args = ffmpeg_args h ffmpeg infile outfile, stdout = DEVNULL, stderr = DEVNULL\<rparr>;
          w' = w\<lparr>spawned := spawned w @ [c]\<rparr>
      in case call h c (fs w) of
           Inl e \<Rightarrow> (Inl e, w')
         | Inr (status, s') \<Rightarrow> (Inr status, w'\<lparr>fs := s'\<rparr>))"

text \<open>
  The handler gives the host a status, or lets an exception through (\<open>Inl\<close>). Each
  \<open>try\<close> catches one class of exception: \<open>EnvironmentError\<close> (the class of every error of
  the operating system) around \<open>get_ffmpeg\<close>, \<open>ValueError\<close> around \<open>fetch_outfile\<close>,
  \<open>NameError\<close> around \<open>do_ffmpeg\<close>.
\<close>

definition is_EnvironmentError :: "exn \<Rightarrow> bool" where
  "is_EnvironmentError e =
     (case e of EnvironmentError m \<Rightarrow> True | OSError n \<Rightarrow> True | FileNotFoundError \<Rightarrow> True
      | NotADirectoryError \<Rightarrow> True | FileExistsError \<Rightarrow> True | PermissionError \<Rightarrow> True | IsADirectoryError \<Rightarrow> True
      | _ \<Rightarrow> False)"

definition str_of_exn :: "exn \<Rightarrow> pystr" where
  "str_of_exn e =
     (case e of ValueError m \<Rightarrow> m | EnvironmentError m \<Rightarrow> m | NameError m \<Rightarrow> m
      | OverflowError m \<Rightarrow> m | OSError n \<Rightarrow> str ''[Errno]''
      | FileNotFoundError \<Rightarrow> str ''[Errno 2] No such file or directory''
      | NotADirectoryError \<Rightarrow> str ''[Errno 20] Not a directory''
      | FileExistsError \<Rightarrow> str ''[Errno 17] File exists''
      | PermissionError \<Rightarrow> str ''[Errno 13] Permission denied''
      | IsADirectoryError \<Rightarrow> str ''[Errno 21] Is a directory''
      | re_error \<Rightarrow> str ''error'')"

definition remove_original :: "host \<Rightarrow> world \<Rightarrow> path \<Rightarrow> int \<Rightarrow> (exn + int) \<times> world" where
  "remove_original h w local_filepath result =
     (if \<not> (weechat_config_get_boolean h (str ''keep'') \<noteq> 0)
      then (case unlink (fs w) local_filepath of
              Inl e \<Rightarrow> (Inl e, w)
            | Inr s' \<Rightarrow>
                (Inr result,
                 print (w\<lparr>fs := s'\<rparr>)
                   (str ''Due to your preferences, the original mkv has been removed '' @ [10])))
      else (Inr result, w))"

definition xfer_ended_signal_cb :: "host \<Rightarrow> world \<Rightarrow> xfer \<Rightarrow> (exn + int) \<times> world" where
  "xfer_ended_signal_cb h w signal_data =
     (case get_ffmpeg h of
        Inl e \<Rightarrow>
          if is_EnvironmentError e then (Inr 1, print w (str_of_exn e)) else (Inl e, w)
      | Inr ffmpeg \<Rightarrow>
          let local_filepath = Path (local_filename signal_data) in
          (case fetch_outfile h (fs w) local_filepath of
             (Inl (ValueError m), s1) \<Rightarrow>
               (Inr 1, print (w\<lparr>fs := s1\<rparr>)
                  (str ''Outfile fetch error!: '' @ m @ str '' '' @ [10]))
           | (Inl e, s1) \<Rightarrow> (Inl e, w\<lparr>fs := s1\<rparr>)
           | (Inr outfile, s1) \<Rightarrow>
               if weechat_config_get_boolean h (str ''debug'') \<noteq> 0
               then (Inr 0, print (w\<lparr>fs := s1\<rparr>)
                  (str ''Infile path: `'' @ local_filename signal_data @ str ''` '' @ [10]
                   @ str ''Outfile path: `'' @ str_of_path outfile @ str ''` '' @ [10]))
               else
                 (case do_ffmpeg h (w\<lparr>fs := s1\<rparr>) ffmpeg (local_filename signal_data)
                         (str_of_path outfile) of
                    (Inl (NameError m), w2) \<Rightarrow>
                      (Inr 1, print w2 (str ''ffmpeg function error!: '' @ m @ str '' '' @ [10]))
                  | (Inl e, w2) \<Rightarrow> (Inl e, w2)
                  | (Inr result, w2) \<Rightarrow>
                      remove_original h
                        (print w2 (str ''Your file '' @ filename signal_data
                           @ str '' has been converted to mp4 and stored in ''
                           @ str_of_path outfile))
                        local_filepath result)))"

section \<open>An example host\<close>

text \<open>
  The options as \<open>init_config\<close> leaves them where the user has set none
  (the table \<open>OPTIONS\<close>), and a host to run the script on: it reads the options from
  \<open>cfg\<close>, takes the spellings \<open>on\<close>, \<open>yes\<close>, \<open>y\<close>, \<open>true\<close>, \<open>t\<close>, \<open>1\<close> for true,
  finds \<open>/usr/bin/ffmpeg\<close> when \<open>found\<close> holds, and its child process exits with
  \<open>status\<close> and leaves the file system as it was. Its \<open>re.compile\<close> is right on the
  patterns used below: one ASCII letter or digit matches itself, \<open>(?a)(?u)a\<close> raises the
  \<open>ValueError\<close> "ASCII and UNICODE flags are incompatible", and \<open>(\<close> raises \<open>re.error\<close>.
\<close>

definition OPTIONS :: "(pystr \<times> pystr) list" where
  "OPTIONS = [(str ''ffmpeg'', []), (str ''pattern'', []),
     (str ''keep'', str ''false''), (str ''overwrite'', str ''true''),
     (str ''debug'', str ''false'')]"

definition default_config :: "pystr \<Rightarrow> pystr" where
  "default_config k = (case map_of OPTIONS k of Some v \<Rightarrow> v | None \<Rightarrow> [])"

definition alnum :: "nat \<Rightarrow> bool" where
  "alnum c = ((48 \<le> c \<and> c \<le> 57) \<or> (65 \<le> c \<and> c \<le> 90) \<or> (97 \<le> c \<and> c \<le> 122))"

definition example_re_compile :: "pystr \<Rightarrow> exn + pattern" where
  "example_re_compile p =
     (if p = str ''(?a)(?u)a''
      then Inl (ValueError (str ''ASCII and UNICODE flags are incompatible''))
      else (case p of
              [c] \<Rightarrow> if alnum c then Inr (filter (\<lambda>x. x \<noteq> c)) else Inl re_error
            | _ \<Rightarrow> Inl re_error))"

definition example_host :: "(pystr \<Rightarrow> pystr) \<Rightarrow> bool \<Rightarrow> int \<Rightarrow> host" where
  "example_host cfg found status =
     \<lparr>config_get_plugin = cfg,
      config_string_to_boolean = (\<lambda>v. if v \<in> set (map str [''on'', ''yes'', ''y'', ''true'', ''t'', ''1'']) then 1 else 0),
      which = (\<lambda>n. if found \<and> n = str ''ffmpeg'' then Some (str ''/usr/bin/ffmpeg'') else None),
      re_compile = example_re_compile,
      call = (\<lambda>c s. Inr (status, s))\<rparr>"

text \<open>
  A file system for the examples: a finished transfer and a text file in \<open>/dl/xfer\<close>, no
  \<open>/dl/processed\<close> yet, no links, every directory writable; \<open>/root\<close> may not be
  searched, so that \<open>stat\<close> raises \<open>PermissionError\<close> for every path below it.
\<close>

definition example_fs :: filesystem where
  "example_fs =
     \<lparr>nodes = [Path (str ''/'') \<mapsto> Dir, Path (str ''/dl'') \<mapsto> Dir,
        Path (str ''/dl/xfer'') \<mapsto> Dir,
        Path (str ''/dl/xfer/bot.My_Show_[GROUP]_-_S01E01.mkv'') \<mapsto> File,
        Path (str ''/dl/xfer/notes.txt'') \<mapsto> File,
        Path (str ''/root'') \<mapsto> Dir],
      stat_error = (\<lambda>p. if root p = str ''/'' \<and> take 1 (parts p) = [str ''root'']
                             \<and> 1 < length (parts p)
                          then Some PermissionError else None),
      readonly = (\<lambda>p. False),
      realpath = (\<lambda>p. p)\<rparr>"

text \<open>The same file system with \<open>/dl/xfer\<close> read-only.\<close>

definition readonly_fs :: filesystem where
  "readonly_fs = example_fs\<lparr>readonly := (\<lambda>p. p = Path (str ''/dl/xfer''))\<rparr>"

definition example_world :: world where
  "example_world = \<lparr>fs = example_fs, printed = [], spawned = []\<rparr>"

definition example_xfer :: xfer where
  "example_xfer = \<lparr>filename = str ''My_Show_[GROUP]_-_S01E01.mkv'',
     local_filename = str ''/dl/xfer/bot.My_Show_[GROUP]_-_S01E01.mkv''\<rparr>"

section \<open>What the passes of \<open>get_outname\<close> keep\<close>

lemma lazy_nonspace_suffix: "lazy_nonspace s = Some r \<Longrightarrow> suffix r s"
  by (induction s) (auto split: if_splits intro: suffix_ConsI)

lemma groupnames_match_suffix:
  assumes "groupnames_match s = Some r"
  shows "suffix r s"
proof -
  obtain b c cs t where d: "dropWhile (\<lambda>c. c = 95) s = b # c # cs"
    and t: "lazy_nonspace cs = Some t" and r: "r = dropWhile (\<lambda>c. c = 95) t"
    using assms
    by (auto simp: groupnames_match_def split: list.splits if_splits)
  have "suffix r t"
    unfolding r by (rule suffix_dropWhile)
  also have "suffix t cs"
    using t by (rule lazy_nonspace_suffix)
  also have "suffix cs (b # c # cs)"
    by (simp add: suffix_ConsI)
  also have "suffix (b # c # cs) s"
    unfolding d [symmetric] by (rule suffix_dropWhile)
  finally show ?thesis .
qed

lemma set_groupnames: "set (groupnames s) \<subseteq> set s"
proof (induction s rule: groupnames.induct)
  case 1
  show ?case by simp
next
  case (2 c cs)
  show ?case
  proof (cases "groupnames_match (c # cs)")
    case None
    with 2 show ?thesis by auto
  next
    case (Some rest)
    then have "set rest \<subseteq> set (c # cs)"
      by (auto dest!: groupnames_match_suffix set_mono_suffix)
    with 2 Some show ?thesis by auto
  qed
qed

lemma set_replace: "set (replace s old new) \<subseteq> set s \<union> set new"
proof (induction s old new rule: replace.induct)
  case (1 old new)
  show ?case by auto
next
  case (2 c cs old new)
  have "set (drop (length old) (c # cs)) \<subseteq> set (c # cs)"
    by (rule set_drop_subset)
  with 2 show ?case by (auto simp del: drop_Suc_Cons)
qed

lemma not_danger_class_dash: "\<not> danger_class 45"
  by (simp add: danger_class_def isspace_def)

section \<open>The derived name\<close>

text \<open>
  C2. With no override pattern, \<open>get_outname\<close> on the basename
  \<open>My_Show_[GROUP]_-_S01E01.mkv\<close> does not give \<open>Show-S01E01.mp4\<close>: the name has one dot,
  so after the first segment is dropped only the extension is left, nothing is joined, and
  the result is \<open>.mp4\<close>.
\<close>

theorem get_outname_example_not_show:
  "get_outname (example_host default_config True 0) (str ''My_Show_[GROUP]_-_S01E01.mkv'')
     \<noteq> Inr (str ''Show-S01E01.mp4'')"
  by (simp add: get_outname_def example_host_def default_config_def OPTIONS_def danger_def
      danger_class_def isspace_def groupnames_match_def)

text \<open>
  C2, as amended. With no override pattern, \<open>get_outname\<close> on the basename
  \<open>My_Show_[GROUP]_-_S01E01.mkv\<close> yields \<open>.mp4\<close>: split on the dot, the first segment
  dropped, all of the rest but the last joined (there is none), \<open>.mp4\<close> appended, and
  nothing for the three passes to remove.
\<close>

theorem get_outname_example:
  "config_get_plugin h (str ''pattern'') = [] \<Longrightarrow>
   get_outname h (str ''My_Show_[GROUP]_-_S01E01.mkv'') = Inr (str ''.mp4'')"
  by (simp add: get_outname_def danger_def danger_class_def isspace_def groupnames_match_def)

theorem get_outname_example_witness:
  "config_get_plugin (example_host default_config True 0) (str ''pattern'') = []
   \<and> get_outname (example_host default_config True 0) (str ''My_Show_[GROUP]_-_S01E01.mkv'')
       = Inr (str ''.mp4'')"
  using get_outname_example [of "example_host default_config True 0"]
  by (simp add: example_host_def default_config_def OPTIONS_def)

text \<open>
  C3. With no override pattern, the name that \<open>get_outname\<close> returns holds none of the
  characters \<open>~ $ { } ! ? | :\<close> and no white space, whatever the input basename holds.
\<close>

theorem get_outname_default_no_danger:
  assumes "config_get_plugin h (str ''pattern'') = []"
  shows "\<exists>out. get_outname h nm = Inr out
    \<and> (\<forall>c \<in> set out. c \<notin> set (str ''~${}!?|:'') \<and> \<not> isspace c)"
proof -
  define spliced where "spliced = concat (butlast (tl (split nm 46))) @ str ''.mp4''"
  define out where "out = replace (groupnames (danger spliced)) (str ''_-_'') (str ''-'')"
  have eq: "get_outname h nm = Inr out"
    using assms by (simp add: get_outname_def out_def spliced_def)
  have "\<not> danger_class c" if "c \<in> set out" for c
  proof -
    from that have "c \<in> set (groupnames (danger spliced)) \<or> c = 45"
      unfolding out_def
      using set_replace [of "groupnames (danger spliced)" "str ''_-_''" "str ''-''"]
      by auto
    then show ?thesis
    proof
      assume "c \<in> set (groupnames (danger spliced))"
      then have "c \<in> set (danger spliced)"
        using set_groupnames by blast
      then show ?thesis by (simp add: danger_def)
    next
      assume "c = 45"
      then show ?thesis by (simp add: not_danger_class_dash)
    qed
  qed
  then have "\<forall>c \<in> set out. c \<notin> set (str ''~${}!?|:'') \<and> \<not> isspace c"
    unfolding danger_class_def by blast
  with eq show ?thesis by blast
qed

theorem get_outname_default_no_danger_witness:
  "config_get_plugin (example_host default_config True 0) (str ''pattern'') = []
   \<and> get_outname (example_host default_config True 0) (str ''bot.a b:c$.x{y}~!?|.mkv'')
       = Inr (str ''abcxy.mp4'')
   \<and> set (str ''abcxy.mp4'') \<inter> set (str ''~${}!?|:'') = {}
   \<and> filter isspace (str ''abcxy.mp4'') = []"
proof -
  have p: "config_get_plugin (example_host default_config True 0) (str ''pattern'') = []"
    by (simp add: example_host_def default_config_def OPTIONS_def)
  have e: "get_outname (example_host default_config True 0) (str ''bot.a b:c$.x{y}~!?|.mkv'')
       = Inr (str ''abcxy.mp4'')"
    using p by (simp add: get_outname_def danger_def danger_class_def isspace_def
        groupnames_match_def)
  from get_outname_default_no_danger [OF p, of "str ''bot.a b:c$.x{y}~!?|.mkv''"] e p
  show ?thesis by (simp add: isspace_def)
qed

section \<open>The output path\<close>

lemma stat_is_not_ValueError: "stat_is s p kind = Inl e \<Longrightarrow> e \<noteq> ValueError m"
  by (auto simp: stat_is_def split: option.splits exn.splits if_splits)

text \<open>
  C5. Not every path that names no regular file gets the \<open>ValueError\<close>: \<open>is_file\<close>
  raises what \<open>stat\<close> raises, unless it is one of the errors it ignores. Nothing is at
  \<open>/root/nothing\<close>, \<open>/root\<close> may not be searched, and \<open>fetch_outfile\<close> raises
  \<open>PermissionError\<close> there, which the handler lets through to the host.
\<close>

theorem fetch_outfile_stat_error:
  "nodes example_fs (Path (str ''/root/nothing'')) = None
   \<and> fetch_outfile (example_host default_config True 0) example_fs (Path (str ''/root/nothing''))
       = (Inl PermissionError, example_fs)
   \<and> xfer_ended_signal_cb (example_host default_config True 0) example_world
         \<lparr>filename = str ''nothing'', local_filename = str ''/root/nothing''\<rparr>
       = (Inl PermissionError, example_world)"
  by (simp add: xfer_ended_signal_cb_def get_ffmpeg_def fetch_outfile_def is_file_def stat_is_def
      ignore_error_def example_host_def default_config_def OPTIONS_def example_world_def
      example_fs_def Path_def splitroot_def)

text \<open>
  C5, as amended. \<open>fetch_outfile\<close> raises the \<open>ValueError\<close> "is not a file or symlink"
  for every path on which \<open>is_file\<close> answers \<open>False\<close>, whatever its name ends in (the
  check comes first), and the \<open>ValueError\<close> "is not a matroska video file" for every path
  on which \<open>is_file\<close> answers \<open>True\<close> and whose name does not end in \<open>.mkv\<close>; where
  \<open>is_file\<close> raises, \<open>fetch_outfile\<close> raises the same exception, which is not a
  \<open>ValueError\<close>. The file system is left as it was in all three cases. Where \<open>stat\<close>
  raises nothing, \<open>is_file\<close> answers whether the path names a regular file or a link to
  one.
\<close>

theorem fetch_outfile_errors:
  "(is_file s infile = Inr False \<longrightarrow>
      fetch_outfile h s infile
        = (Inl (ValueError (str_of_path infile @ str '' is not a file or symlink!'')), s))
   \<and> (is_file s infile = Inr True \<and> \<not> endswith (path_name infile) (str ''.mkv'') \<longrightarrow>
      fetch_outfile h s infile
        = (Inl (ValueError (path_name infile @ str '' is not a matroska video file!'')), s))
   \<and> (\<forall>e. is_file s infile = Inl e \<longrightarrow>
        fetch_outfile h s infile = (Inl e, s) \<and> (\<forall>m. e \<noteq> ValueError m))
   \<and> (stat_error s infile = None \<longrightarrow>
        is_file s infile = Inr (nodes s infile = Some File \<or> nodes s infile = Some LinkToFile))"
proof -
  have "is_file s infile = Inr (nodes s infile = Some File \<or> nodes s infile = Some LinkToFile)"
    if "stat_error s infile = None"
    using that by (simp add: is_file_def stat_is_def split: option.splits)
  then show ?thesis
    by (auto simp: fetch_outfile_def is_file_def dest: stat_is_not_ValueError)
qed

theorem fetch_outfile_errors_witness:
  "is_file example_fs (Path (str ''/dl/xfer'')) = Inr False
   \<and> \<not> endswith (path_name (Path (str ''/dl/xfer''))) (str ''.mkv'')
   \<and> fetch_outfile (example_host default_config True 0) example_fs (Path (str ''/dl/xfer''))
       = (Inl (ValueError (str ''/dl/xfer is not a file or symlink!'')), example_fs)
   \<and> is_file example_fs (Path (str ''/dl/xfer/notes.txt'')) = Inr True
   \<and> fetch_outfile (example_host default_config True 0) example_fs
         (Path (str ''/dl/xfer/notes.txt''))
       = (Inl (ValueError (str ''notes.txt is not a matroska video file!'')), example_fs)
   \<and> stat_error example_fs (Path (str ''/dl/xfer'')) = None
   \<and> is_file example_fs (Path (str ''/root/x.mkv'')) = Inl PermissionError
   \<and> fetch_outfile (example_host default_config True 0) example_fs (Path (str ''/root/x.mkv''))
       = (Inl PermissionError, example_fs)"
proof -
  have a: "is_file example_fs (Path (str ''/dl/xfer'')) = Inr False"
    by (simp add: is_file_def stat_is_def example_fs_def Path_def splitroot_def)
  have b: "is_file example_fs (Path (str ''/dl/xfer/notes.txt'')) = Inr True"
    by (simp add: is_file_def stat_is_def example_fs_def Path_def splitroot_def)
  have c: "\<not> endswith (path_name (Path (str ''/dl/xfer/notes.txt''))) (str ''.mkv'')"
    by (simp add: endswith_def path_name_def Path_def splitroot_def)
  have d: "\<not> endswith (path_name (Path (str ''/dl/xfer''))) (str ''.mkv'')"
    by (simp add: endswith_def path_name_def Path_def splitroot_def)
  have e: "str_of_path (Path (str ''/dl/xfer'')) = str ''/dl/xfer''"
    by (simp add: str_of_path_def Path_def splitroot_def)
  have f: "path_name (Path (str ''/dl/xfer/notes.txt'')) = str ''notes.txt''"
    by (simp add: path_name_def Path_def splitroot_def)
  have g: "is_file example_fs (Path (str ''/root/x.mkv'')) = Inl PermissionError"
    by (simp add: is_file_def stat_is_def ignore_error_def example_fs_def Path_def splitroot_def)
  have n: "stat_error example_fs (Path (str ''/dl/xfer'')) = None"
    by (simp add: example_fs_def Path_def splitroot_def)
  show ?thesis
    using fetch_outfile_errors [of example_fs "Path (str ''/dl/xfer'')" "example_host default_config True 0"]
      fetch_outfile_errors [of example_fs "Path (str ''/dl/xfer/notes.txt'')" "example_host default_config True 0"]
      fetch_outfile_errors [of example_fs "Path (str ''/root/x.mkv'')" "example_host default_config True 0"]
      a b c d e f g n
    by simp
qed

section \<open>Locating ffmpeg\<close>

text \<open>
  C9. \<open>get_ffmpeg\<close> returns the configured path, unchecked, whenever it is not empty;
  otherwise what the search of the executable path finds; and when that finds nothing the
  handler prints the error message and returns 1, with no path resolved, no directory
  made and no process started (the world only gains the printed line).
\<close>

theorem get_ffmpeg_override_or_search:
  "(config_get_plugin h (str ''ffmpeg'') \<noteq> [] \<longrightarrow>
      get_ffmpeg h = Inr (config_get_plugin h (str ''ffmpeg'')))
   \<and> (config_get_plugin h (str ''ffmpeg'') = [] \<longrightarrow>
      (\<forall>f. which h (str ''ffmpeg'') = Some f \<longrightarrow> get_ffmpeg h = Inr f))
   \<and> (config_get_plugin h (str ''ffmpeg'') = [] \<and> which h (str ''ffmpeg'') = None \<longrightarrow>
      get_ffmpeg h = Inl (EnvironmentError (str
        ''Error: ffmpeg could not be found on the system! Please install ffmpeg or unload this plugin!''))
      \<and> xfer_ended_signal_cb h w signal_data = (Inr 1, print w (str
        ''Error: ffmpeg could not be found on the system! Please install ffmpeg or unload this plugin!'')))"
  by (simp add: get_ffmpeg_def xfer_ended_signal_cb_def is_EnvironmentError_def str_of_exn_def)

theorem get_ffmpeg_override_or_search_witness:
  "config_get_plugin (example_host (default_config(str ''ffmpeg'' := str ''/opt/no/such'')) False 0)
       (str ''ffmpeg'') \<noteq> []
   \<and> get_ffmpeg (example_host (default_config(str ''ffmpeg'' := str ''/opt/no/such'')) False 0)
       = Inr (str ''/opt/no/such'')
   \<and> config_get_plugin (example_host default_config True 0) (str ''ffmpeg'') = []
   \<and> which (example_host default_config True 0) (str ''ffmpeg'') = Some (str ''/usr/bin/ffmpeg'')
   \<and> get_ffmpeg (example_host default_config True 0) = Inr (str ''/usr/bin/ffmpeg'')
   \<and> config_get_plugin (example_host default_config False 0) (str ''ffmpeg'') = []
   \<and> which (example_host default_config False 0) (str ''ffmpeg'') = None
   \<and> xfer_ended_signal_cb (example_host default_config False 0) example_world example_xfer
       = (Inr 1, example_world\<lparr>printed := [str
        ''Error: ffmpeg could not be found on the system! Please install ffmpeg or unload this plugin!'']\<rparr>)"
  using get_ffmpeg_override_or_search
      [of "example_host (default_config(str ''ffmpeg'' := str ''/opt/no/such'')) False 0"
          example_world example_xfer]
    get_ffmpeg_override_or_search [of "example_host default_config True 0" example_world example_xfer]
    get_ffmpeg_override_or_search [of "example_host default_config False 0" example_world example_xfer]
  by (simp add: example_host_def default_config_def OPTIONS_def print_def example_world_def)

section \<open>Running ffmpeg\<close>

text \<open>
  C8. \<open>do_ffmpeg\<close> makes one call, with the arguments
  \<open>ffmpeg -i infile -c copy -strict -2 -c:s mov_text outfile\<close>, followed by \<open>-y\<close> exactly
  when the option \<open>overwrite\<close> reads as true, and with the child's standard output and
  standard error discarded; when the child exits, its status is returned as it is.
\<close>

theorem do_ffmpeg_call:
  "(let c = \<lparr>args = [ffmpeg, str ''-i'', infile, str ''-c'', str ''copy'', str ''-strict'',
                       str ''-2'', str ''-c:s'', str ''mov_text'', outfile]
                      @ (if weechat_config_get_boolean h (str ''overwrite'') \<noteq> 0
                         then [str ''-y''] else []),
               stdout = DEVNULL, stderr = DEVNULL\<rparr>
    in spawned (snd (do_ffmpeg h w ffmpeg infile outfile)) = spawned w @ [c]
       \<and> (\<forall>status s'. call h c (fs w) = Inr (status, s') \<longrightarrow>
             do_ffmpeg h w ffmpeg infile outfile
               = (Inr status, w\<lparr>spawned := spawned w @ [c], fs := s'\<rparr>)))"
  by (auto simp: do_ffmpeg_def ffmpeg_args_def Let_def split: sum.splits)

theorem do_ffmpeg_call_witness:
  "do_ffmpeg (example_host default_config True 1) example_world (str ''/usr/bin/ffmpeg'')
       (str ''in.mkv'') (str ''out.mp4'')
     = (Inr 1, example_world\<lparr>spawned :=
         [\<lparr>args = [str ''/usr/bin/ffmpeg'', str ''-i'', str ''in.mkv'', str ''-c'', str ''copy'',
                    str ''-strict'', str ''-2'', str ''-c:s'', str ''mov_text'', str ''out.mp4'',
                    str ''-y''],
            stdout = DEVNULL, stderr = DEVNULL\<rparr>]\<rparr>)
   \<and> spawned (snd (do_ffmpeg (example_host (default_config(str ''overwrite'' := str ''false'')) True 0)
       example_world (str ''/usr/bin/ffmpeg'') (str ''in.mkv'') (str ''out.mp4'')))
     = [\<lparr>args = [str ''/usr/bin/ffmpeg'', str ''-i'', str ''in.mkv'', str ''-c'', str ''copy'',
                    str ''-strict'', str ''-2'', str ''-c:s'', str ''mov_text'', str ''out.mp4''],
            stdout = DEVNULL, stderr = DEVNULL\<rparr>]"
  using do_ffmpeg_call [where h = "example_host default_config True 1" and w = example_world
      and ffmpeg = "str ''/usr/bin/ffmpeg''" and infile = "str ''in.mkv''"
      and outfile = "str ''out.mp4''"]
    do_ffmpeg_call [where h = "example_host (default_config(str ''overwrite'' := str ''false'')) True 0"
      and w = example_world and ffmpeg = "str ''/usr/bin/ffmpeg''" and infile = "str ''in.mkv''"
      and outfile = "str ''out.mp4''"]
  by (simp add: do_ffmpeg_def ffmpeg_args_def weechat_config_get_boolean_def example_host_def
      default_config_def OPTIONS_def example_world_def Let_def)

section \<open>An override pattern that does not compile\<close>

text \<open>
  C10. Not every override pattern that \<open>re.compile\<close> rejects gets past the handler: for
  \<open>(?a)(?u)a\<close> the exception is a \<open>ValueError\<close>, and the handler catches it, prints it
  as a path error and returns 1.
\<close>

theorem incompatible_flags_caught:
  "re_compile (example_host (default_config(str ''pattern'' := str ''(?a)(?u)a'')) True 0)
       (str ''(?a)(?u)a'')
     = Inl (ValueError (str ''ASCII and UNICODE flags are incompatible''))
   \<and> xfer_ended_signal_cb (example_host (default_config(str ''pattern'' := str ''(?a)(?u)a'')) True 0)
         example_world example_xfer
       = (Inr 1,
          \<lparr>fs = example_fs\<lparr>nodes := (nodes example_fs)(Path (str ''/dl/processed'') \<mapsto> Dir)\<rparr>,
           printed = [str ''Outfile fetch error!: ASCII and UNICODE flags are incompatible '' @ [10]],
           spawned = []\<rparr>)"
  by (simp add: xfer_ended_signal_cb_def get_ffmpeg_def fetch_outfile_def get_outname_def
      is_file_def stat_is_def endswith_def path_name_def mkdir_def joinpath_def path_parent_def
      print_def example_host_def example_re_compile_def default_config_def OPTIONS_def
      example_world_def example_fs_def example_xfer_def Path_def splitroot_def Let_def)

text \<open>
  C10, as amended. When the option \<open>pattern\<close> is not empty and \<open>re.compile\<close> raises an
  exception on it, \<open>get_outname\<close> raises that exception. In a handler that got as far as
  \<open>get_outname\<close> (ffmpeg located, the input a regular \<open>.mkv\<close> file, the output directory
  there), an exception that is not a \<open>ValueError\<close>, such as \<open>re.error\<close>, goes through to
  the host, with nothing printed and no status returned; a \<open>ValueError\<close> is caught, printed
  as a path error, and the status is 1.
\<close>

theorem invalid_pattern_escapes:
  assumes "config_get_plugin h (str ''pattern'') \<noteq> []"
    and "re_compile h (config_get_plugin h (str ''pattern'')) = Inl e"
  shows "get_outname h nm = Inl e
    \<and> (\<forall>f s'. get_ffmpeg h = Inr f
          \<and> is_file (fs w) (Path (local_filename signal_data)) = Inr True
          \<and> endswith (path_name (Path (local_filename signal_data))) (str ''.mkv'')
          \<and> mkdir (fs w) (joinpath
                (path_parent (realpath (fs w) (path_parent (Path (local_filename signal_data)))))
                (str ''processed'')) = Inr s'
        \<longrightarrow> xfer_ended_signal_cb h w signal_data
            = (case e of
                 ValueError m \<Rightarrow>
                   (Inr 1, print (w\<lparr>fs := s'\<rparr>)
                      (str ''Outfile fetch error!: '' @ m @ str '' '' @ [10]))
               | _ \<Rightarrow> (Inl e, w\<lparr>fs := s'\<rparr>)))"
proof -
  have g: "get_outname h nm = Inl e" for nm
    using assms by (simp add: get_outname_def)
  show ?thesis
    by (cases e) (simp_all add: g xfer_ended_signal_cb_def fetch_outfile_def Let_def)
qed

theorem invalid_pattern_escapes_witness:
  "config_get_plugin (example_host (default_config(str ''pattern'' := str ''('')) True 0)
       (str ''pattern'') = str ''(''
   \<and> re_compile (example_host (default_config(str ''pattern'' := str ''('')) True 0) (str ''('')
       = Inl re_error
   \<and> xfer_ended_signal_cb (example_host (default_config(str ''pattern'' := str ''('')) True 0)
         example_world example_xfer
       = (Inl re_error,
          example_world\<lparr>fs := example_fs\<lparr>nodes := (nodes example_fs)
             (Path (str ''/dl/processed'') \<mapsto> Dir)\<rparr>\<rparr>)
   \<and> get_outname (example_host (default_config(str ''pattern'' := str ''(?a)(?u)a'')) True 0)
         (str ''bot.a.mkv'')
       = Inl (ValueError (str ''ASCII and UNICODE flags are incompatible''))"
proof -
  let ?h = "example_host (default_config(str ''pattern'' := str ''('')) True 0"
  have p: "config_get_plugin ?h (str ''pattern'') = str ''(''"
    by (simp add: example_host_def)
  have r: "re_compile ?h (str ''('') = Inl re_error"
    by (simp add: example_host_def example_re_compile_def alnum_def)
  have a: "config_get_plugin ?h (str ''pattern'') \<noteq> []"
    by (simp add: example_host_def)
  have b: "re_compile ?h (config_get_plugin ?h (str ''pattern'')) = Inl re_error"
    by (simp add: example_host_def example_re_compile_def alnum_def)
  have f: "get_ffmpeg ?h = Inr (str ''/usr/bin/ffmpeg'')"
    by (simp add: get_ffmpeg_def example_host_def default_config_def OPTIONS_def)
  have i: "is_file (fs example_world) (Path (local_filename example_xfer)) = Inr True"
    by (simp add: is_file_def stat_is_def example_world_def example_fs_def example_xfer_def
        Path_def splitroot_def)
  have e: "endswith (path_name (Path (local_filename example_xfer))) (str ''.mkv'')"
    by (simp add: endswith_def path_name_def example_xfer_def Path_def splitroot_def)
  have m: "mkdir (fs example_world) (joinpath
        (path_parent (realpath (fs example_world) (path_parent (Path (local_filename example_xfer)))))
        (str ''processed''))
      = Inr (example_fs\<lparr>nodes := (nodes example_fs)(Path (str ''/dl/processed'') \<mapsto> Dir)\<rparr>)"
    by (simp add: mkdir_def joinpath_def path_parent_def example_world_def
        example_fs_def example_xfer_def Path_def splitroot_def Let_def)
  from invalid_pattern_escapes [OF a b, of "[]" example_world example_xfer] f i e m
  have "xfer_ended_signal_cb ?h example_world example_xfer
       = (Inl re_error,
          example_world\<lparr>fs := example_fs\<lparr>nodes := (nodes example_fs)
             (Path (str ''/dl/processed'') \<mapsto> Dir)\<rparr>\<rparr>)"
    by simp
  note first = this
  let ?g = "example_host (default_config(str ''pattern'' := str ''(?a)(?u)a'')) True 0"
  have a': "config_get_plugin ?g (str ''pattern'') \<noteq> []"
    by (simp add: example_host_def)
  have b': "re_compile ?g (config_get_plugin ?g (str ''pattern''))
      = Inl (ValueError (str ''ASCII and UNICODE flags are incompatible''))"
    by (simp add: example_host_def example_re_compile_def)
  from invalid_pattern_escapes [OF a' b', of "str ''bot.a.mkv''" example_world example_xfer]
  have "get_outname ?g (str ''bot.a.mkv'')
       = Inl (ValueError (str ''ASCII and UNICODE flags are incompatible''))"
    by blast
  with p r first show ?thesis by blast
qed

section \<open>The handler in debug mode\<close>

lemma example_fetch_outfile:
  "config_get_plugin h (str ''pattern'') = [] \<Longrightarrow>
   fetch_outfile h example_fs (Path (str ''/dl/xfer/bot.My_Show_[GROUP]_-_S01E01.mkv''))
     = (Inr (Path (str ''/dl/processed/My_Show-_S01E01.mp4'')),
        example_fs\<lparr>nodes := (nodes example_fs)(Path (str ''/dl/processed'') \<mapsto> Dir)\<rparr>)"
  by (simp add: fetch_outfile_def is_file_def stat_is_def endswith_def path_name_def mkdir_def
      joinpath_def path_parent_def example_fs_def Path_def splitroot_def Let_def
      get_outname_def danger_def danger_class_def isspace_def groupnames_match_def)

lemma exist_ok_result: "exist_ok s p e = Inr s' \<Longrightarrow> s' = s \<and> nodes s p \<noteq> None"
  by (auto simp: exist_ok_def is_dir_def stat_is_def
      split: sum.splits option.splits exn.splits if_splits)

lemma mkdir_result:
  "mkdir s p = Inr s' \<Longrightarrow>
   s' = (if nodes s p = None then s\<lparr>nodes := (nodes s)(p \<mapsto> Dir)\<rparr> else s)"
  by (auto simp: mkdir_def split: if_splits dest: exist_ok_result)

lemma fetch_outfile_result:
  assumes "fetch_outfile h s infile = (Inr outfile, s')"
  shows "mkdir s (joinpath (path_parent (realpath s (path_parent infile))) (str ''processed''))
     = Inr s'"
  using assms
  by (auto simp: fetch_outfile_def Let_def split: if_splits sum.splits)

text \<open>
  C6. With the option \<open>debug\<close> set and a valid input, the handler does not leave the file
  system alone: \<open>fetch_outfile\<close> has made the directory \<open>processed\<close> before the option is
  read. On the example, \<open>/dl/processed\<close> does not exist before the call and is a directory
  after it, and the status is 0.
\<close>

theorem debug_creates_processed:
  "nodes (fs example_world) (Path (str ''/dl/processed'')) = None
   \<and> fst (xfer_ended_signal_cb (example_host (default_config(str ''debug'' := str ''true'')) True 0)
        example_world example_xfer) = Inr 0
   \<and> nodes (fs (snd (xfer_ended_signal_cb
        (example_host (default_config(str ''debug'' := str ''true'')) True 0)
        example_world example_xfer))) (Path (str ''/dl/processed'')) = Some Dir"
proof -
  let ?h = "example_host (default_config(str ''debug'' := str ''true'')) True 0"
  have p: "config_get_plugin ?h (str ''pattern'') = []"
    by (simp add: example_host_def default_config_def OPTIONS_def)
  have f: "get_ffmpeg ?h = Inr (str ''/usr/bin/ffmpeg'')"
    by (simp add: get_ffmpeg_def example_host_def default_config_def OPTIONS_def)
  have d: "weechat_config_get_boolean ?h (str ''debug'') = 1"
    by (simp add: weechat_config_get_boolean_def example_host_def)
  have n: "nodes (fs example_world) (Path (str ''/dl/processed'')) = None"
    by (simp add: example_world_def example_fs_def Path_def splitroot_def)
  have w: "fs example_world = example_fs"
    "local_filename example_xfer = str ''/dl/xfer/bot.My_Show_[GROUP]_-_S01E01.mkv''"
    by (simp_all add: example_world_def example_xfer_def)
  have n': "nodes example_fs (Path (str ''/dl/processed'')) = None"
    using n by (simp add: w)
  show ?thesis
    unfolding xfer_ended_signal_cb_def f w
    using example_fetch_outfile [OF p] n' d
    by (simp add: print_def)
qed

text \<open>
  C6, as amended. With the option \<open>debug\<close> set, ffmpeg located and the output path
  resolved, the handler prints the input and the output path in one message and returns 0;
  no process is started and nothing is deleted; the one change to the file system is that
  the directory \<open>processed\<close> is made when nothing had that name.
\<close>

theorem debug_prints_and_stops:
  assumes "weechat_config_get_boolean h (str ''debug'') \<noteq> 0"
    and "get_ffmpeg h = Inr ffmpeg"
    and "fetch_outfile h (fs w) (Path (local_filename signal_data)) = (Inr outfile, s1)"
  shows "xfer_ended_signal_cb h w signal_data
      = (Inr 0,
         \<lparr>fs = s1,
          printed = printed w @
            [str ''Infile path: `'' @ local_filename signal_data @ str ''` '' @ [10]
             @ str ''Outfile path: `'' @ str_of_path outfile @ str ''` '' @ [10]],
          spawned = spawned w\<rparr>)
    \<and> s1 = (let outdir = joinpath
                (path_parent (realpath (fs w) (path_parent (Path (local_filename signal_data)))))
                (str ''processed'')
            in if nodes (fs w) outdir = None
               then (fs w)\<lparr>nodes := (nodes (fs w))(outdir \<mapsto> Dir)\<rparr> else fs w)"
proof
  show "xfer_ended_signal_cb h w signal_data
      = (Inr 0,
         \<lparr>fs = s1,
          printed = printed w @
            [str ''Infile path: `'' @ local_filename signal_data @ str ''` '' @ [10]
             @ str ''Outfile path: `'' @ str_of_path outfile @ str ''` '' @ [10]],
          spawned = spawned w\<rparr>)"
    using assms by (simp add: xfer_ended_signal_cb_def print_def)
next
  from assms(3) have "mkdir (fs w) (joinpath
      (path_parent (realpath (fs w) (path_parent (Path (local_filename signal_data)))))
      (str ''processed'')) = Inr s1"
    by (rule fetch_outfile_result)
  then show "s1 = (let outdir = joinpath
                (path_parent (realpath (fs w) (path_parent (Path (local_filename signal_data)))))
                (str ''processed'')
            in if nodes (fs w) outdir = None
               then (fs w)\<lparr>nodes := (nodes (fs w))(outdir \<mapsto> Dir)\<rparr> else fs w)"
    unfolding Let_def by (rule mkdir_result)
qed

theorem debug_prints_and_stops_witness:
  "weechat_config_get_boolean (example_host (default_config(str ''debug'' := str ''true'')) True 0)
       (str ''debug'') = 1
   \<and> get_ffmpeg (example_host (default_config(str ''debug'' := str ''true'')) True 0)
       = Inr (str ''/usr/bin/ffmpeg'')
   \<and> xfer_ended_signal_cb (example_host (default_config(str ''debug'' := str ''true'')) True 0)
         example_world example_xfer
       = (Inr 0,
          \<lparr>fs = example_fs\<lparr>nodes := (nodes example_fs)(Path (str ''/dl/processed'') \<mapsto> Dir)\<rparr>,
           printed = [str ''Infile path: `/dl/xfer/bot.My_Show_[GROUP]_-_S01E01.mkv` '' @ [10]
             @ str ''Outfile path: `/dl/processed/My_Show-_S01E01.mp4` '' @ [10]],
           spawned = []\<rparr>)"
proof -
  let ?h = "example_host (default_config(str ''debug'' := str ''true'')) True 0"
  have p: "config_get_plugin ?h (str ''pattern'') = []"
    by (simp add: example_host_def default_config_def OPTIONS_def)
  have f: "get_ffmpeg ?h = Inr (str ''/usr/bin/ffmpeg'')"
    by (simp add: get_ffmpeg_def example_host_def default_config_def OPTIONS_def)
  have d: "weechat_config_get_boolean ?h (str ''debug'') = 1"
    by (simp add: weechat_config_get_boolean_def example_host_def)
  have d': "weechat_config_get_boolean ?h (str ''debug'') \<noteq> 0"
    by (simp add: weechat_config_get_boolean_def example_host_def)
  have o: "fetch_outfile ?h (fs example_world) (Path (local_filename example_xfer))
     = (Inr (Path (str ''/dl/processed/My_Show-_S01E01.mp4'')),
        example_fs\<lparr>nodes := (nodes example_fs)(Path (str ''/dl/processed'') \<mapsto> Dir)\<rparr>)"
    using example_fetch_outfile [OF p] by (simp add: example_world_def example_xfer_def)
  have s: "str_of_path (Path (str ''/dl/processed/My_Show-_S01E01.mp4''))
     = str ''/dl/processed/My_Show-_S01E01.mp4''"
    by (simp add: str_of_path_def Path_def splitroot_def)
  from debug_prints_and_stops [OF d' f o] s
  have "xfer_ended_signal_cb ?h example_world example_xfer
       = (Inr 0,
          \<lparr>fs = example_fs\<lparr>nodes := (nodes example_fs)(Path (str ''/dl/processed'') \<mapsto> Dir)\<rparr>,
           printed = [str ''Infile path: `/dl/xfer/bot.My_Show_[GROUP]_-_S01E01.mkv` '' @ [10]
             @ str ''Outfile path: `/dl/processed/My_Show-_S01E01.mp4` '' @ [10]],
           spawned = []\<rparr>)"
    by (simp add: example_world_def example_xfer_def)
  with d f show ?thesis by blast
qed

section \<open>The handler after the transcode\<close>

lemma unlink_file:
  "is_file s p = Inr True \<Longrightarrow> \<not> readonly s (path_parent p) \<Longrightarrow>
   unlink s p = Inr (s\<lparr>nodes := (nodes s)(p := None)\<rparr>)"
  by (auto simp: unlink_def is_file_def stat_is_def
      split: option.splits exn.splits if_splits node.splits)

text \<open>
  C7. A handler that reaches the transcode with \<open>keep\<close> off does not always delete the
  source and return the child's status. With \<open>/dl/xfer\<close> read-only, the child is run and
  exits with status 1, the completion message is printed, and then \<open>unlink\<close> raises
  \<open>PermissionError\<close>: the exception reaches the host in place of the status, and the
  source is still there.
\<close>

theorem readonly_source_not_removed:
  "weechat_config_get_boolean (example_host default_config True 1) (str ''keep'') = 0
   \<and> xfer_ended_signal_cb (example_host default_config True 1)
         (example_world\<lparr>fs := readonly_fs\<rparr>) example_xfer
       = (Inl PermissionError,
          \<lparr>fs = readonly_fs\<lparr>nodes := (nodes readonly_fs)(Path (str ''/dl/processed'') \<mapsto> Dir)\<rparr>,
           printed =
             [str ''Your file My_Show_[GROUP]_-_S01E01.mkv has been converted to mp4 and stored in /dl/processed/My_Show-_S01E01.mp4''],
           spawned =
             [\<lparr>args = [str ''/usr/bin/ffmpeg'', str ''-i'',
                       str ''/dl/xfer/bot.My_Show_[GROUP]_-_S01E01.mkv'', str ''-c'', str ''copy'',
                       str ''-strict'', str ''-2'', str ''-c:s'', str ''mov_text'',
                       str ''/dl/processed/My_Show-_S01E01.mp4'', str ''-y''],
               stdout = DEVNULL, stderr = DEVNULL\<rparr>]\<rparr>)
   \<and> nodes (readonly_fs\<lparr>nodes := (nodes readonly_fs)(Path (str ''/dl/processed'') \<mapsto> Dir)\<rparr>)
         (Path (str ''/dl/xfer/bot.My_Show_[GROUP]_-_S01E01.mkv'')) = Some File"
  by (simp add: xfer_ended_signal_cb_def get_ffmpeg_def fetch_outfile_def get_outname_def
      do_ffmpeg_def ffmpeg_args_def remove_original_def unlink_def weechat_config_get_boolean_def
      is_file_def stat_is_def endswith_def path_name_def mkdir_def joinpath_def path_parent_def
      str_of_path_def print_def danger_def danger_class_def isspace_def groupnames_match_def
      example_host_def default_config_def OPTIONS_def readonly_fs_def
      example_world_def example_fs_def example_xfer_def Path_def splitroot_def Let_def)

text \<open>
  C7, as amended. When the handler reaches the transcode (ffmpeg located, the output path
  resolved, \<open>debug\<close> off), \<open>keep\<close> is off and the child exits with any status at all,
  zero or not, the completion message naming the original file name and the output path
  is printed and \<open>unlink\<close> is called on the source. When \<open>unlink\<close> succeeds, as it
  does whenever the source is still a regular file in a directory that can be written to,
  the source is gone, the removal is reported and the handler returns the child's status
  unchanged; when \<open>unlink\<close> raises, the exception goes to the host after the completion
  message, the file system is as the child left it, and no status is returned.
\<close>

theorem source_removed_whatever_status:
  assumes "get_ffmpeg h = Inr ffmpeg"
    and "fetch_outfile h (fs w) (Path (local_filename signal_data)) = (Inr outfile, s1)"
    and "weechat_config_get_boolean h (str ''debug'') = 0"
    and "weechat_config_get_boolean h (str ''keep'') = 0"
    and "call h \<lparr>args = ffmpeg_args h ffmpeg (local_filename signal_data) (str_of_path outfile),
                  stdout = DEVNULL, stderr = DEVNULL\<rparr> s1 = Inr (status, s2)"
  shows "xfer_ended_signal_cb h w signal_data
      = (case unlink s2 (Path (local_filename signal_data)) of
           Inr s3 \<Rightarrow>
             (Inr status,
              \<lparr>fs = s3,
               printed = printed w @
                 [str ''Your file '' @ filename signal_data
                    @ str '' has been converted to mp4 and stored in '' @ str_of_path outfile,
                  str ''Due to your preferences, the original mkv has been removed '' @ [10]],
               spawned = spawned w @
                 [\<lparr>args = ffmpeg_args h ffmpeg (local_filename signal_data) (str_of_path outfile),
                   stdout = DEVNULL, stderr = DEVNULL\<rparr>]\<rparr>)
         | Inl e \<Rightarrow>
             (Inl e,
              \<lparr>fs = s2,
               printed = printed w @
                 [str ''Your file '' @ filename signal_data
                    @ str '' has been converted to mp4 and stored in '' @ str_of_path outfile],
               spawned = spawned w @
                 [\<lparr>args = ffmpeg_args h ffmpeg (local_filename signal_data) (str_of_path outfile),
                   stdout = DEVNULL, stderr = DEVNULL\<rparr>]\<rparr>))
    \<and> (is_file s2 (Path (local_filename signal_data)) = Inr True
         \<and> \<not> readonly s2 (path_parent (Path (local_filename signal_data)))
       \<longrightarrow> unlink s2 (Path (local_filename signal_data))
           = Inr (s2\<lparr>nodes := (nodes s2)(Path (local_filename signal_data) := None)\<rparr>))"
proof
  show "xfer_ended_signal_cb h w signal_data
      = (case unlink s2 (Path (local_filename signal_data)) of
           Inr s3 \<Rightarrow>
             (Inr status,
              \<lparr>fs = s3,
               printed = printed w @
                 [str ''Your file '' @ filename signal_data
                    @ str '' has been converted to mp4 and stored in '' @ str_of_path outfile,
                  str ''Due to your preferences, the original mkv has been removed '' @ [10]],
               spawned = spawned w @
                 [\<lparr>args = ffmpeg_args h ffmpeg (local_filename signal_data) (str_of_path outfile),
                   stdout = DEVNULL, stderr = DEVNULL\<rparr>]\<rparr>)
         | Inl e \<Rightarrow>
             (Inl e,
              \<lparr>fs = s2,
               printed = printed w @
                 [str ''Your file '' @ filename signal_data
                    @ str '' has been converted to mp4 and stored in '' @ str_of_path outfile],
               spawned = spawned w @
                 [\<lparr>args = ffmpeg_args h ffmpeg (local_filename signal_data) (str_of_path outfile),
                   stdout = DEVNULL, stderr = DEVNULL\<rparr>]\<rparr>))"
    using assms
    by (simp add: xfer_ended_signal_cb_def do_ffmpeg_def remove_original_def print_def Let_def
        split: sum.splits)
next
  show "is_file s2 (Path (local_filename signal_data)) = Inr True
         \<and> \<not> readonly s2 (path_parent (Path (local_filename signal_data)))
       \<longrightarrow> unlink s2 (Path (local_filename signal_data))
           = Inr (s2\<lparr>nodes := (nodes s2)(Path (local_filename signal_data) := None)\<rparr>)"
    by (simp add: unlink_file)
qed

theorem source_removed_whatever_status_witness:
  "get_ffmpeg (example_host default_config True 1) = Inr (str ''/usr/bin/ffmpeg'')
   \<and> weechat_config_get_boolean (example_host default_config True 1) (str ''debug'') = 0
   \<and> weechat_config_get_boolean (example_host default_config True 1) (str ''keep'') = 0
   \<and> xfer_ended_signal_cb (example_host default_config True 1) example_world example_xfer
       = (Inr 1,
          \<lparr>fs = example_fs\<lparr>nodes := (nodes example_fs)
                 (Path (str ''/dl/processed'') \<mapsto> Dir,
                  Path (str ''/dl/xfer/bot.My_Show_[GROUP]_-_S01E01.mkv'') := None)\<rparr>,
           printed =
             [str ''Your file My_Show_[GROUP]_-_S01E01.mkv has been converted to mp4 and stored in /dl/processed/My_Show-_S01E01.mp4'',
              str ''Due to your preferences, the original mkv has been removed '' @ [10]],
           spawned =
             [\<lparr>args = [str ''/usr/bin/ffmpeg'', str ''-i'',
                       str ''/dl/xfer/bot.My_Show_[GROUP]_-_S01E01.mkv'', str ''-c'', str ''copy'',
                       str ''-strict'', str ''-2'', str ''-c:s'', str ''mov_text'',
                       str ''/dl/processed/My_Show-_S01E01.mp4'', str ''-y''],
               stdout = DEVNULL, stderr = DEVNULL\<rparr>]\<rparr>)"
proof -
  let ?h = "example_host default_config True 1"
  let ?s1 = "example_fs\<lparr>nodes := (nodes example_fs)(Path (str ''/dl/processed'') \<mapsto> Dir)\<rparr>"
  let ?out = "Path (str ''/dl/processed/My_Show-_S01E01.mp4'')"
  have p: "config_get_plugin ?h (str ''pattern'') = []"
    by (simp add: example_host_def default_config_def OPTIONS_def)
  have f: "get_ffmpeg ?h = Inr (str ''/usr/bin/ffmpeg'')"
    by (simp add: get_ffmpeg_def example_host_def default_config_def OPTIONS_def)
  have d: "weechat_config_get_boolean ?h (str ''debug'') = 0"
    by (simp add: weechat_config_get_boolean_def example_host_def default_config_def OPTIONS_def)
  have k: "weechat_config_get_boolean ?h (str ''keep'') = 0"
    by (simp add: weechat_config_get_boolean_def example_host_def default_config_def OPTIONS_def)
  have o: "fetch_outfile ?h (fs example_world) (Path (local_filename example_xfer)) = (Inr ?out, ?s1)"
    using example_fetch_outfile [OF p] by (simp add: example_world_def example_xfer_def)
  have c: "call ?h \<lparr>args = ffmpeg_args ?h (str ''/usr/bin/ffmpeg'') (local_filename example_xfer)
                (str_of_path ?out), stdout = DEVNULL, stderr = DEVNULL\<rparr> ?s1 = Inr (1, ?s1)"
    by (simp add: example_host_def)
  have i: "is_file ?s1 (Path (local_filename example_xfer)) = Inr True"
    by (simp add: is_file_def stat_is_def example_fs_def example_xfer_def Path_def splitroot_def)
  have r: "\<not> readonly ?s1 (path_parent (Path (local_filename example_xfer)))"
    by (simp add: example_fs_def)
  have a: "ffmpeg_args ?h (str ''/usr/bin/ffmpeg'') (local_filename example_xfer) (str_of_path ?out)
      = [str ''/usr/bin/ffmpeg'', str ''-i'',
         str ''/dl/xfer/bot.My_Show_[GROUP]_-_S01E01.mkv'', str ''-c'', str ''copy'',
         str ''-strict'', str ''-2'', str ''-c:s'', str ''mov_text'',
         str ''/dl/processed/My_Show-_S01E01.mp4'', str ''-y'']"
    by (simp add: ffmpeg_args_def weechat_config_get_boolean_def example_host_def
        default_config_def OPTIONS_def example_xfer_def str_of_path_def Path_def splitroot_def)
  have s: "str_of_path ?out = str ''/dl/processed/My_Show-_S01E01.mp4''"
    by (simp add: str_of_path_def Path_def splitroot_def)
  from source_removed_whatever_status [OF f o d k c] i r a s
  have "xfer_ended_signal_cb ?h example_world example_xfer
       = (Inr 1,
          \<lparr>fs = example_fs\<lparr>nodes := (nodes example_fs)
                 (Path (str ''/dl/processed'') \<mapsto> Dir,
                  Path (str ''/dl/xfer/bot.My_Show_[GROUP]_-_S01E01.mkv'') := None)\<rparr>,
           printed =
             [str ''Your file My_Show_[GROUP]_-_S01E01.mkv has been converted to mp4 and stored in /dl/processed/My_Show-_S01E01.mp4'',
              str ''Due to your preferences, the original mkv has been removed '' @ [10]],
           spawned =
             [\<lparr>args = [str ''/usr/bin/ffmpeg'', str ''-i'',
                       str ''/dl/xfer/bot.My_Show_[GROUP]_-_S01E01.mkv'', str ''-c'', str ''copy'',
                       str ''-strict'', str ''-2'', str ''-c:s'', str ''mov_text'',
                       str ''/dl/processed/My_Show-_S01E01.mp4'', str ''-y''],
               stdout = DEVNULL, stderr = DEVNULL\<rparr>]\<rparr>)"
    by (simp add: example_world_def example_xfer_def)
  with f d k show ?thesis by blast
qed

section \<open>No group tag is left\<close>

lemma groupnames_match_Nil: "groupnames_match [] = None"
  by (simp add: groupnames_match_def)

lemma groupnames_match_underscore: "groupnames_match (95 # s) = groupnames_match s"
  by (simp add: groupnames_match_def)

lemma groupnames_match_bracket:
  "groupnames_match (91 # s) =
     (case s of [] \<Rightarrow> None
      | c # cs \<Rightarrow> if isspace c then None
                 else map_option (dropWhile (\<lambda>c. c = 95)) (lazy_nonspace cs))"
  by (simp add: groupnames_match_def split: list.splits)

lemma groupnames_match_other:
  "c \<noteq> 95 \<Longrightarrow> c \<noteq> 91 \<Longrightarrow> groupnames_match (c # cs) = None"
  by (simp add: groupnames_match_def split: list.splits)

lemma groupnames_match_search: "groupnames_match s \<noteq> None \<Longrightarrow> groupnames_search s"
  by (cases s) (auto simp: groupnames_match_Nil)

lemma lazy_nonspace_Cons:
  "\<not> isspace c \<Longrightarrow> lazy_nonspace cs \<noteq> None \<Longrightarrow> lazy_nonspace (c # cs) \<noteq> None"
  by simp

lemma not_isspace_underscore: "\<not> isspace 95" "\<not> isspace 91" "\<not> isspace 45"
  by (simp_all add: isspace_def)

text \<open>A match consists of characters that are not white space and holds a closing bracket.\<close>

lemma groupnames_match_body:
  "groupnames_match (c # cs) \<noteq> None \<Longrightarrow> \<not> isspace c \<and> lazy_nonspace cs \<noteq> None"
proof (induction cs arbitrary: c)
  case Nil
  then show ?case
    by (cases "c = 95"; cases "c = 91") (simp_all add: groupnames_match_Nil groupnames_match_underscore not_isspace_underscore groupnames_match_bracket groupnames_match_other)
next
  case (Cons d ds)
  consider "c = 95" | "c = 91" | "c \<noteq> 95" "c \<noteq> 91" by blast
  then show ?case
  proof cases
    case 1
    with Cons.prems have "groupnames_match (d # ds) \<noteq> None" by (simp add: groupnames_match_Nil groupnames_match_underscore not_isspace_underscore)
    from Cons.IH [OF this] 1 show ?thesis by (simp add: groupnames_match_Nil groupnames_match_underscore not_isspace_underscore)
  next
    case 2
    with Cons.prems show ?thesis
      by (auto simp: groupnames_match_Nil groupnames_match_underscore not_isspace_underscore groupnames_match_bracket split: if_splits)
  next
    case 3
    with Cons.prems show ?thesis by (simp add: groupnames_match_Nil groupnames_match_underscore not_isspace_underscore groupnames_match_other)
  qed
qed

lemma lazy_nonspace_groupnames:
  "lazy_nonspace (groupnames v) \<noteq> None \<Longrightarrow> lazy_nonspace v \<noteq> None"
proof (induction v rule: groupnames.induct)
  case 1
  then show ?case by (simp add: groupnames_match_Nil groupnames_match_underscore not_isspace_underscore)
next
  case (2 c cs)
  show ?case
  proof (cases "groupnames_match (c # cs)")
    case None
    with 2 show ?thesis by (auto simp: groupnames_match_Nil groupnames_match_underscore not_isspace_underscore split: if_splits)
  next
    case (Some rest)
    then have "\<not> isspace c \<and> lazy_nonspace cs \<noteq> None"
      using groupnames_match_body [of c cs] by (simp add: groupnames_match_Nil groupnames_match_underscore not_isspace_underscore)
    then show ?thesis by (simp add: groupnames_match_Nil groupnames_match_underscore not_isspace_underscore)
  qed
qed

lemma groupnames_body:
  assumes "groupnames xs = c # rest" and "\<not> isspace c" and "lazy_nonspace rest \<noteq> None"
  shows "\<exists>d ds. xs = d # ds \<and> \<not> isspace d \<and> lazy_nonspace ds \<noteq> None"
proof (cases xs)
  case Nil
  with assms show ?thesis by (simp add: groupnames_match_Nil groupnames_match_underscore not_isspace_underscore)
next
  case (Cons y ys)
  show ?thesis
  proof (cases "groupnames_match (y # ys)")
    case None
    with assms Cons have "c = y" and "rest = groupnames ys" by (simp_all add: groupnames_match_Nil groupnames_match_underscore not_isspace_underscore)
    with assms lazy_nonspace_groupnames [of ys] Cons show ?thesis by (simp add: groupnames_match_Nil groupnames_match_underscore not_isspace_underscore)
  next
    case (Some r)
    with groupnames_match_body [of y ys] Cons show ?thesis by (simp add: groupnames_match_Nil groupnames_match_underscore not_isspace_underscore)
  qed
qed

lemma groupnames_leaves_no_match: "\<not> groupnames_search (groupnames s)"
proof (induction s rule: groupnames.induct)
  case 1
  show ?case by (simp add: groupnames_match_Nil groupnames_match_underscore not_isspace_underscore)
next
  case (2 c cs)
  show ?case
  proof (cases "groupnames_match (c # cs)")
    case (Some rest)
    with 2 show ?thesis by (simp add: groupnames_match_Nil groupnames_match_underscore not_isspace_underscore)
  next
    case None
    with 2 have ih: "\<not> groupnames_search (groupnames cs)" by (simp add: groupnames_match_Nil groupnames_match_underscore not_isspace_underscore)
    have "groupnames_match (c # groupnames cs) = None"
    proof (rule ccontr)
      assume m: "groupnames_match (c # groupnames cs) \<noteq> None"
      consider "c = 95" | "c = 91" | "c \<noteq> 95" "c \<noteq> 91" by blast
      then show False
      proof cases
        case 1
        with m have "groupnames_match (groupnames cs) \<noteq> None" by (simp add: groupnames_match_Nil groupnames_match_underscore not_isspace_underscore)
        then have "groupnames_search (groupnames cs)" by (rule groupnames_match_search)
        with ih show False by (simp add: groupnames_match_Nil groupnames_match_underscore not_isspace_underscore)
      next
        case 2
        with m obtain d ds where "groupnames cs = d # ds" "\<not> isspace d" "lazy_nonspace ds \<noteq> None"
          by (auto simp: groupnames_match_Nil groupnames_match_underscore not_isspace_underscore groupnames_match_bracket split: list.splits if_splits)
        from groupnames_body [OF this] obtain e es where
          "cs = e # es" "\<not> isspace e" "lazy_nonspace es \<noteq> None" by blast
        with 2 None show False by (auto simp: groupnames_match_Nil groupnames_match_underscore not_isspace_underscore groupnames_match_bracket)
      next
        case 3
        with m show False by (simp add: groupnames_match_Nil groupnames_match_underscore not_isspace_underscore groupnames_match_other)
      qed
    qed
    with None ih show ?thesis by (simp add: groupnames_match_Nil groupnames_match_underscore not_isspace_underscore)
  qed
qed

text \<open>Replacing \<open>_-_\<close> by a dash makes no new match of \<open>groupnames\<close>.\<close>

lemma replace_dash_dash:
  "replace (95 # 45 # 95 # xs) [95, 45, 95] [45] = 45 # replace xs [95, 45, 95] [45]"
  by (simp add: groupnames_match_Nil groupnames_match_underscore not_isspace_underscore)

lemma replace_dash_other:
  "\<not> prefix [95, 45, 95] (c # cs) \<Longrightarrow>
   replace (c # cs) [95, 45, 95] [45] = c # replace cs [95, 45, 95] [45]"
  by (simp add: groupnames_match_Nil groupnames_match_underscore not_isspace_underscore)

lemma replace_dash_induct [consumes 0, case_names Nil dash other]:
  assumes "P []"
    and "\<And>xs. P xs \<Longrightarrow> P (95 # 45 # 95 # xs)"
    and "\<And>c cs. \<not> prefix [95, 45, 95] (c # cs) \<Longrightarrow> P cs \<Longrightarrow> P (c # cs)"
  shows "P (v :: nat list)"
proof (induction v rule: length_induct)
  case (1 v)
  show ?case
  proof (cases v)
    case Nil
    with assms(1) show ?thesis by (simp add: groupnames_match_Nil groupnames_match_underscore not_isspace_underscore)
  next
    case (Cons c cs)
    show ?thesis
    proof (cases "prefix [95, 45, 95] (c # cs)")
      case True
      then obtain xs where v: "c # cs = 95 # 45 # 95 # xs"
        by (auto simp: groupnames_match_Nil groupnames_match_underscore not_isspace_underscore prefix_def)
      with 1 Cons have "P xs" by (simp add: groupnames_match_Nil groupnames_match_underscore not_isspace_underscore)
      with assms(2) v Cons show ?thesis by (simp add: groupnames_match_Nil groupnames_match_underscore not_isspace_underscore)
    next
      case False
      from 1 Cons have "P cs" by (simp add: groupnames_match_Nil groupnames_match_underscore not_isspace_underscore)
      with assms(3) False Cons show ?thesis by (simp add: groupnames_match_Nil groupnames_match_underscore not_isspace_underscore)
    qed
  qed
qed

lemma lazy_nonspace_replace:
  "lazy_nonspace (replace v [95, 45, 95] [45]) \<noteq> None \<Longrightarrow> lazy_nonspace v \<noteq> None"
proof (induction v rule: replace_dash_induct)
  case Nil
  then show ?case by (simp add: groupnames_match_Nil groupnames_match_underscore not_isspace_underscore)
next
  case (dash xs)
  then show ?case by (simp add: groupnames_match_Nil groupnames_match_underscore not_isspace_underscore replace_dash_dash del: replace.simps)
next
  case (other c cs)
  then show ?case by (auto simp: groupnames_match_Nil groupnames_match_underscore not_isspace_underscore replace_dash_other simp del: replace.simps split: if_splits)
qed

lemma replace_body:
  assumes "replace cs [95, 45, 95] [45] = d # ds" and "\<not> isspace d"
    and "lazy_nonspace ds \<noteq> None"
  shows "\<exists>e es. cs = e # es \<and> \<not> isspace e \<and> lazy_nonspace es \<noteq> None"
proof (cases cs)
  case Nil
  with assms show ?thesis by (simp add: groupnames_match_Nil groupnames_match_underscore not_isspace_underscore)
next
  case (Cons y ys)
  show ?thesis
  proof (cases "prefix [95, 45, 95] (y # ys)")
    case True
    then obtain xs where v: "y # ys = 95 # 45 # 95 # xs"
      by (auto simp: groupnames_match_Nil groupnames_match_underscore not_isspace_underscore prefix_def)
    with assms Cons have "ds = replace xs [95, 45, 95] [45]"
      by (simp add: groupnames_match_Nil groupnames_match_underscore not_isspace_underscore replace_dash_dash del: replace.simps)
    with assms(3) have "lazy_nonspace xs \<noteq> None"
      using lazy_nonspace_replace [of xs] by blast
    with v Cons show ?thesis by (simp add: groupnames_match_Nil groupnames_match_underscore not_isspace_underscore)
  next
    case False
    with assms Cons have "d = y" "ds = replace ys [95, 45, 95] [45]"
      by (simp_all add: groupnames_match_Nil groupnames_match_underscore not_isspace_underscore replace_dash_other del: replace.simps)
    with assms(2,3) have "\<not> isspace y" "lazy_nonspace ys \<noteq> None"
      using lazy_nonspace_replace [of ys] by blast+
    with Cons show ?thesis by (simp add: groupnames_match_Nil groupnames_match_underscore not_isspace_underscore)
  qed
qed

lemma groupnames_match_replace:
  "groupnames_match (replace v [95, 45, 95] [45]) \<noteq> None \<Longrightarrow> groupnames_match v \<noteq> None"
proof (induction v rule: replace_dash_induct)
  case Nil
  then show ?case by (simp add: groupnames_match_Nil groupnames_match_underscore not_isspace_underscore)
next
  case (dash xs)
  then show ?case by (simp add: groupnames_match_Nil groupnames_match_underscore not_isspace_underscore groupnames_match_other replace_dash_dash del: replace.simps)
next
  case (other c cs)
  from other.hyps other.prems
  have m: "groupnames_match (c # replace cs [95, 45, 95] [45]) \<noteq> None"
    by (simp add: groupnames_match_Nil groupnames_match_underscore not_isspace_underscore replace_dash_other del: replace.simps)
  consider "c = 95" | "c = 91" | "c \<noteq> 95" "c \<noteq> 91" by blast
  then show ?case
  proof cases
    case 1
    with m other.IH show ?thesis by (simp add: groupnames_match_Nil groupnames_match_underscore not_isspace_underscore)
  next
    case 2
    with m obtain d ds where "replace cs [95, 45, 95] [45] = d # ds" "\<not> isspace d"
      "lazy_nonspace ds \<noteq> None"
      by (auto simp: groupnames_match_Nil groupnames_match_underscore not_isspace_underscore groupnames_match_bracket split: list.splits if_splits)
    from replace_body [OF this] obtain e es where
      "cs = e # es" "\<not> isspace e" "lazy_nonspace es \<noteq> None" by blast
    with 2 show ?thesis by (auto simp: groupnames_match_Nil groupnames_match_underscore not_isspace_underscore groupnames_match_bracket)
  next
    case 3
    with m show ?thesis by (simp add: groupnames_match_Nil groupnames_match_underscore not_isspace_underscore groupnames_match_other)
  qed
qed

lemma groupnames_search_replace:
  "groupnames_search (replace v [95, 45, 95] [45]) \<Longrightarrow> groupnames_search v"
proof (induction v rule: replace_dash_induct)
  case Nil
  then show ?case by (simp add: groupnames_match_Nil groupnames_match_underscore not_isspace_underscore)
next
  case (dash xs)
  then show ?case by (simp add: groupnames_match_Nil groupnames_match_underscore not_isspace_underscore groupnames_match_other replace_dash_dash del: replace.simps)
next
  case (other c cs)
  from other.hyps other.prems
  have "groupnames_match (replace (c # cs) [95, 45, 95] [45]) \<noteq> None
    \<or> groupnames_search (replace cs [95, 45, 95] [45])"
    by (simp add: groupnames_match_Nil groupnames_match_underscore not_isspace_underscore replace_dash_other del: replace.simps)
  then show ?case
  proof
    assume "groupnames_match (replace (c # cs) [95, 45, 95] [45]) \<noteq> None"
    then have "groupnames_match (c # cs) \<noteq> None" by (rule groupnames_match_replace)
    then show ?thesis by (simp add: groupnames_match_Nil groupnames_match_underscore not_isspace_underscore)
  next
    assume "groupnames_search (replace cs [95, 45, 95] [45])"
    with other.IH show ?thesis by (simp add: groupnames_match_Nil groupnames_match_underscore not_isspace_underscore)
  qed
qed

text \<open>
  C4. With an override pattern that is not empty (and compiles, to \<open>r\<close>), \<open>get_outname\<close>
  deletes the matches of \<open>r\<close> where it would have deleted the danger characters, which
  it then does not delete; the matches of \<open>groupnames\<close> are deleted afterwards all the
  same, and the name returned holds no match of \<open>groupnames\<close> (no underscores around a
  bracketed run of characters that are not white space), whatever \<open>r\<close> matches.
\<close>

theorem override_replaces_danger_only:
  assumes "config_get_plugin h (str ''pattern'') \<noteq> []"
    and "re_compile h (config_get_plugin h (str ''pattern'')) = Inr r"
  shows "get_outname h nm
      = Inr (replace (groupnames (r (concat (butlast (tl (split nm 46))) @ str ''.mp4'')))
               (str ''_-_'') (str ''-''))
    \<and> \<not> groupnames_search
          (replace (groupnames (r (concat (butlast (tl (split nm 46))) @ str ''.mp4'')))
             (str ''_-_'') (str ''-''))"
proof
  show "get_outname h nm
      = Inr (replace (groupnames (r (concat (butlast (tl (split nm 46))) @ str ''.mp4'')))
               (str ''_-_'') (str ''-''))"
    using assms by (simp add: get_outname_def)
next
  have "\<not> groupnames_search (replace (groupnames t) [95, 45, 95] [45])" for t
    using groupnames_search_replace [of "groupnames t"] groupnames_leaves_no_match [of t]
    by blast
  then show "\<not> groupnames_search
          (replace (groupnames (r (concat (butlast (tl (split nm 46))) @ str ''.mp4'')))
             (str ''_-_'') (str ''-''))"
    by simp
qed

theorem override_replaces_danger_only_witness:
  "config_get_plugin (example_host (default_config(str ''pattern'' := str ''x'')) True 0)
       (str ''pattern'') = str ''x''
   \<and> get_outname (example_host (default_config(str ''pattern'' := str ''x'')) True 0)
         (str ''bot.ax $_[G]_b.mkv'') = Inr (str ''a $b.mp4'')
   \<and> \<not> groupnames_search (str ''a $b.mp4'')"
proof -
  let ?h = "example_host (default_config(str ''pattern'' := str ''x'')) True 0"
  have p: "config_get_plugin ?h (str ''pattern'') = str ''x''"
    by (simp add: example_host_def)
  have a: "config_get_plugin ?h (str ''pattern'') \<noteq> []"
    by (simp add: example_host_def)
  have b: "re_compile ?h (config_get_plugin ?h (str ''pattern'')) = Inr (filter (\<lambda>c. c \<noteq> 120))"
    by (simp add: example_host_def example_re_compile_def alnum_def)
  have e: "replace (groupnames (filter (\<lambda>c. c \<noteq> 120)
          (concat (butlast (tl (split (str ''bot.ax $_[G]_b.mkv'') 46))) @ str ''.mp4'')))
        (str ''_-_'') (str ''-'') = str ''a $b.mp4''"
    by (simp add: groupnames_match_def isspace_def)
  from override_replaces_danger_only [OF a b, of "str ''bot.ax $_[G]_b.mkv''"] e p
  show ?thesis by simp
qed

section \<open>Where the output goes\<close>



















end
